theory Spec2Isabelle
  imports Main "HOL-Library.Word" "HOL-Library.AList"
begin

section \<open>The netCDF classic header decoder of scope.py\<close>

text \<open>
  The decoder reads a binary file object front to back and fills a dictionary.
  The file object is a record of the file's bytes and the current position, every
  decoding function takes it and returns it advanced, and every exception the
  Python raises is a value of the type \<open>error\<close>.
\<close>

subsection \<open>Values, errors and the input file\<close>

type_synonym byte = "8 word"

text \<open>A Python \<open>str\<close> is its sequence of Unicode code points.\<close>

type_synonym pystr = "nat list"

text \<open>
  The Python values the decoder produces. A float is kept as the big-endian IEEE-754
  bytes it was unpacked from, uninterpreted.
\<close>

datatype pyval =
    IntV int
  | StrV pystr
  | BytesV "byte list"
  | FloatV "byte list"
  | TupleV "pyval list"
  | ListV "pyval list"

text \<open>
  \<open>FormatError\<close> carries the message template and the arguments given to
  \<open>format\<close>. The other constructors are the built-in exceptions that the code
  raises without meaning to: \<open>struct.error\<close>, \<open>IndexError\<close>,
  \<open>NameError\<close> (with the unbound name), \<open>AttributeError\<close>,
  \<open>KeyError\<close> (with the missing key), \<open>UnicodeDecodeError\<close>,
  \<open>UnboundLocalError\<close> and \<open>ValueError\<close>.
\<close>

datatype error =
    FormatError string "pyval list"
  | StructError
  | IndexError
  | NameError string
  | AttributeError
  | KeyError string
  | UnicodeDecodeError
  | UnboundLocalError
  | ValueError

record inp =
  content :: "byte list"
  pos :: nat

definition remaining :: "inp \<Rightarrow> byte list" where
  "remaining f = drop (pos f) (content f)"

text \<open>
  \<open>inp.read(n)\<close> on a buffered binary file, for \<open>n \<ge> -1\<close>: the next \<open>n\<close> bytes,
  or all that is left when fewer remain (no exception); \<open>-1\<close> reads to the end. For
  a length below \<open>-1\<close> the file object raises \<open>ValueError\<close>: the one call whose
  length can be negative, in \<open>values\<close>, has that raise written out before it reads.
\<close>

definition read :: "inp \<Rightarrow> int \<Rightarrow> byte list \<times> inp" where
  "read f n =
     (let b = (if n < 0 then remaining f else take (nat n) (remaining f))
      in (b, f\<lparr>pos := pos f + length b\<rparr>))"

text \<open>\<open>inp.tell()\<close>, which the code uses in one diagnostic print only.\<close>

definition tell :: "inp \<Rightarrow> nat" where
  "tell f = pos f"

subsection \<open>The library functions the decoder calls\<close>

text \<open>Big-endian bytes as an unsigned and as a two's complement integer.\<close>

definition be_uint :: "byte list \<Rightarrow> int" where
  "be_uint bs = foldl (\<lambda>a b. a * 256 + uint b) 0 bs"

definition be_sint :: "byte list \<Rightarrow> int" where
  "be_sint bs =
     (let u = be_uint bs; w = 8 * length bs
      in if 2 ^ (w - 1) \<le> u then u - 2 ^ w else u)"

text \<open>\<open>struct.unpack('>i', b)\<close>: \<open>struct.error\<close> unless \<open>b\<close> has 4 bytes.\<close>

definition unpack_i :: "byte list \<Rightarrow> error + int" where
  "unpack_i b = (if length b \<noteq> 4 then Inl StructError else Inr (be_sint b))"

text \<open>The storage size of a format character of \<open>struct\<close>.\<close>

definition calcsize :: "char \<Rightarrow> nat" where
  "calcsize f =
     (if f = CHR ''b'' then 1 else if f = CHR ''s'' then 1
      else if f = CHR ''h'' then 2 else if f = CHR ''i'' then 4
      else if f = CHR ''f'' then 4 else 8)"

text \<open>The buffer cut into \<open>k\<close> items of \<open>l\<close> bytes.\<close>

fun items :: "nat \<Rightarrow> nat \<Rightarrow> byte list \<Rightarrow> byte list list" where
  "items 0 l b = []"
| "items (Suc k) l b = take l b # items k l (drop l b)"

definition item_value :: "char \<Rightarrow> byte list \<Rightarrow> pyval" where
  "item_value f bs =
     (if f = CHR ''f'' \<or> f = CHR ''d'' then FloatV bs else IntV (be_sint bs))"

text \<open>
  \<open>struct.unpack('>{n}{f}', b)\<close>: a negative repeat count is a bad format, a buffer
  that is not exactly \<open>n\<close> items long is refused, \<open>s\<close> gives one bytes value of
  length \<open>n\<close> and every other format gives \<open>n\<close> values.
\<close>

definition unpack :: "int \<Rightarrow> char \<Rightarrow> byte list \<Rightarrow> error + pyval list" where
  "unpack n f b =
     (if n < 0 then Inl StructError
      else if length b \<noteq> nat n * calcsize f then Inl StructError
      else if f = CHR ''s'' then Inr [BytesV b]
      else Inr (map (item_value f) (items (nat n) (calcsize f) b)))"

text \<open>The slices \<open>xs[:k]\<close> and \<open>xs[k:]\<close>; a negative index counts from the end.\<close>

definition slice_to :: "int \<Rightarrow> 'a list \<Rightarrow> 'a list" where
  "slice_to k xs = (if 0 \<le> k then take (nat k) xs else take (length xs - nat (- k)) xs)"

definition slice_from :: "int \<Rightarrow> 'a list \<Rightarrow> 'a list" where
  "slice_from k xs = (if 0 \<le> k then drop (nat k) xs else drop (length xs - nat (- k)) xs)"

text \<open>
  \<open>str(b, 'utf-8')\<close>: the strict UTF-8 codec. It accepts the well-formed byte
  sequences only (no overlong form, no surrogate, nothing above U+10FFFF) and
  raises \<open>UnicodeDecodeError\<close>, here \<open>None\<close>, on anything else.
\<close>

definition cont :: "nat \<Rightarrow> bool" where
  "cont b = (128 \<le> b \<and> b \<le> 191)"

fun utf8 :: "nat list \<Rightarrow> pystr option" where
  "utf8 [] = Some []"
| "utf8 (a # bs) =
     (if a < 128 then map_option ((#) a) (utf8 bs)
      else if 194 \<le> a \<and> a \<le> 223 then
        (case bs of
           b # r \<Rightarrow>
             if cont b then map_option ((#) ((a - 192) * 64 + (b - 128))) (utf8 r)
             else None
         | _ \<Rightarrow> None)
      else if 224 \<le> a \<and> a \<le> 239 then
        (case bs of
           b # c # r \<Rightarrow>
             if (if a = 224 then 160 else 128) \<le> b \<and> b \<le> (if a = 237 then 159 else 191)
                \<and> cont c
             then map_option ((#) (((a - 224) * 64 + (b - 128)) * 64 + (c - 128))) (utf8 r)
             else None
         | _ \<Rightarrow> None)
      else if 240 \<le> a \<and> a \<le> 244 then
        (case bs of
           b # c # d # r \<Rightarrow>
             if (if a = 240 then 144 else 128) \<le> b \<and> b \<le> (if a = 244 then 143 else 191)
                \<and> cont c \<and> cont d
             then map_option
                    ((#) ((((a - 240) * 64 + (b - 128)) * 64 + (c - 128)) * 64 + (d - 128)))
                    (utf8 r)
             else None
         | _ \<Rightarrow> None)
      else None)"

definition utf8_decode :: "byte list \<Rightarrow> pystr option" where
  "utf8_decode bs = utf8 (map unat bs)"

text \<open>
  A list comprehension \<open>[f(inp) for i in range(n)]\<close>: \<open>f\<close> is run \<open>n\<close> times on
  the file, in order, and the first exception ends the loop.
\<close>

fun comprehension ::
  "(inp \<Rightarrow> error + ('a \<times> inp)) \<Rightarrow> nat \<Rightarrow> inp \<Rightarrow> error + ('a list \<times> inp)" where
  "comprehension f 0 i = Inr ([], i)"
| "comprehension f (Suc k) i =
     (case f i of
        Inl e \<Rightarrow> Inl e
      | Inr (x, i1) \<Rightarrow>
          (case comprehension f k i1 of
             Inl e \<Rightarrow> Inl e
           | Inr (xs, i2) \<Rightarrow> Inr (x # xs, i2)))"

subsection \<open>The primitives\<close>

definition non_neg :: "inp \<Rightarrow> error + (int \<times> inp)" where
  "non_neg i =
     (let (b, i1) = read i 4 in
      case unpack_i b of
        Inl e \<Rightarrow> Inl e
      | Inr n \<Rightarrow>
          if n < 0 then Inl (FormatError ''expected NON NEG, but found {!r}'' [IntV n])
          else Inr (n, i1))"

definition nelems :: "inp \<Rightarrow> error + (int \<times> inp)" where
  "nelems i = non_neg i"

definition dim_length :: "inp \<Rightarrow> error + (int \<times> inp)" where
  "dim_length i =
     (let (b, i1) = read i 4 in
      case unpack_i b of
        Inl e \<Rightarrow> Inl e
      | Inr n \<Rightarrow>
          if n < 0 then Inl (FormatError ''invalid dim_length {!r}'' [IntV n])
          else Inr (n, i1))"

definition nc_type :: "inp \<Rightarrow> error + (string \<times> inp)" where
  "nc_type i =
     (let (b, i1) = read i 4 in
      case unpack_i b of
        Inl e \<Rightarrow> Inl e
      | Inr x \<Rightarrow>
          if x \<notin> {1, 2, 3, 4, 5, 6} then
            Inl (FormatError ''invalid nc_type code {!r}'' [IntV x])
          else if x = 1 then Inr (''byte'', i1)
          else if x = 2 then Inr (''char'', i1)
          else if x = 3 then Inr (''short'', i1)
          else if x = 4 then Inr (''int'', i1)
          else if x = 5 then Inr (''float'', i1)
          else Inr (''double'', i1))"

text \<open>
  The chain of \<open>if type == ...\<close> statements of \<open>values\<close> that binds \<open>l\<close> and
  \<open>f\<close>; they stay unbound for any other type.
\<close>

definition width_format :: "string \<Rightarrow> (int \<times> char) option" where
  "width_format ty =
     (let lf = None;
          lf = (if ty = ''byte'' then Some (1, CHR ''b'') else lf);
          lf = (if ty = ''char'' then Some (1, CHR ''s'') else lf);
          lf = (if ty = ''short'' then Some (2, CHR ''h'') else lf);
          lf = (if ty = ''int'' then Some (4, CHR ''i'') else lf);
          lf = (if ty = ''float'' then Some (4, CHR ''f'') else lf);
          lf = (if ty = ''double'' then Some (8, CHR ''d'') else lf)
      in lf)"

text \<open>
  \<open>values(inp, type, nelems)\<close>, with \<open>nelems\<close> written \<open>count\<close>. For \<open>char\<close> the
  one-element tuple is unpacked by \<open>(vs,) = vs\<close> and the bytes value itself is sliced.
  A negative count can make the padded length negative (it is then at most \<open>-4\<close>),
  and \<open>inp.read\<close> raises \<open>ValueError\<close>.
\<close>

definition values_py :: "inp \<Rightarrow> string \<Rightarrow> int \<Rightarrow> error + (pyval \<times> inp)" where
  "values_py i ty count =
     (case width_format ty of
        None \<Rightarrow> Inl UnboundLocalError
      | Some (l, f) \<Rightarrow>
          (let len = count * l;
               padded_length = 4 * ((len + 3) div 4);
               n = padded_length div l
           in if padded_length < - 1 then Inl ValueError
              else
                (let (b, i1) = read i padded_length
                 in case unpack n f b of
                      Inl e \<Rightarrow> Inl e
                    | Inr vs \<Rightarrow>
                        if ty = ''char'' then
                          (case vs of
                             [BytesV s] \<Rightarrow> Inr (BytesV (slice_to count s), i1)
                           | _ \<Rightarrow> Inl ValueError)
                        else Inr (TupleV (slice_to count vs), i1))))"

text \<open>
  \<open>name(inp)\<close>, with its local \<open>nelems\<close> written \<open>count\<close>: the text is
  decoded before the padding is looked at.
\<close>

definition name :: "inp \<Rightarrow> error + (pystr \<times> inp)" where
  "name i =
     (let (b, i1) = read i 4 in
      case unpack_i b of
        Inl e \<Rightarrow> Inl e
      | Inr count \<Rightarrow>
          if count < 0 then
            Inl (FormatError ''expected name nelems, but found {!r}'' [IntV count])
          else
            (let padded = 4 * ((count + 3) div 4);
                 (padded_name, i2) = read i1 padded
             in case utf8_decode (slice_to count padded_name) of
                  None \<Rightarrow> Inl UnicodeDecodeError
                | Some nm \<Rightarrow>
                    (let padding = slice_from count padded_name
                     in if padding \<noteq> replicate (length padding) 0 then
                          Inl (FormatError ''wrong padding in name'' [])
                        else Inr (nm, i2))))"

subsection \<open>Dimensions, attributes and variables\<close>

definition dim :: "inp \<Rightarrow> error + (pyval \<times> inp)" where
  "dim i =
     (case name i of
        Inl e \<Rightarrow> Inl e
      | Inr (nm, i1) \<Rightarrow>
          (case dim_length i1 of
             Inl e \<Rightarrow> Inl e
           | Inr (n, i2) \<Rightarrow> Inr (TupleV [StrV nm, IntV n], i2)))"

definition attr :: "inp \<Rightarrow> error + (pyval \<times> inp)" where
  "attr i =
     (case name i of
        Inl e \<Rightarrow> Inl e
      | Inr (attr_name, i1) \<Rightarrow>
          (case nc_type i1 of
             Inl e \<Rightarrow> Inl e
           | Inr (ty, i2) \<Rightarrow>
               (case nelems i2 of
                  Inl e \<Rightarrow> Inl e
                | Inr (n, i3) \<Rightarrow>
                    (case values_py i3 ty n of
                       Inl e \<Rightarrow> Inl e
                     | Inr (vs, i4) \<Rightarrow> Inr (TupleV [StrV attr_name, vs], i4)))))"

definition zero4 :: "byte list" where
  "zero4 = [0, 0, 0, 0]"

text \<open>
  \<open>att_list(inp)\<close> has no parameter \<open>p\<close> and the module has no global of that
  name, so the assignment to \<open>p['gatt_list']\<close> in the ABSENT branch raises
  \<open>NameError\<close>.
\<close>

definition att_list :: "inp \<Rightarrow> error + (pyval \<times> inp)" where
  "att_list i =
     (let (attribute, i1) = read i 4 in
      if attribute = zero4 then
        (let (n, i2) = read i1 4 in
         if n \<noteq> zero4 then
           Inl (FormatError ''expected ABSENT for att_list, but found {!r}'' [BytesV n])
         else Inl (NameError ''p''))
      else if attribute \<noteq> [0, 0, 0, 12] then
        Inl (FormatError ''expected NC_ATTRIBUTE for att_list, but found {!r}''
               [BytesV attribute])
      else
        (case nelems i1 of
           Inl e \<Rightarrow> Inl e
         | Inr (n, i2) \<Rightarrow>
             (case comprehension attr (nat n) i2 of
                Inl e \<Rightarrow> Inl e
              | Inr (xs, i3) \<Rightarrow> Inr (ListV xs, i3))))"

text \<open>
  \<open>var(inp)\<close> reads the dimension ids and the type, and returns the tuple
  \<open>(var_name, var_attr, vsize, begin)\<close>.
\<close>

definition var :: "inp \<Rightarrow> error + (pyval \<times> inp)" where
  "var i =
     (case name i of
        Inl e \<Rightarrow> Inl e
      | Inr (var_name, i1) \<Rightarrow>
     (case nelems i1 of
        Inl e \<Rightarrow> Inl e
      | Inr (n, i2) \<Rightarrow>
     (case comprehension non_neg (nat n) i2 of
        Inl e \<Rightarrow> Inl e
      | Inr (dimensions, i3) \<Rightarrow>
     (case att_list i3 of
        Inl e \<Rightarrow> Inl e
      | Inr (var_attr, i4) \<Rightarrow>
     (case nc_type i4 of
        Inl e \<Rightarrow> Inl e
      | Inr (ty, i5) \<Rightarrow>
     (case non_neg i5 of
        Inl e \<Rightarrow> Inl e
      | Inr (vsize, i6) \<Rightarrow>
     (case non_neg i6 of
        Inl e \<Rightarrow> Inl e
      | Inr (begin, i7) \<Rightarrow>
          Inr (TupleV [StrV var_name, var_attr, IntV vsize, IntV begin], i7))))))))"

subsection \<open>The header\<close>

text \<open>
  The dictionary \<open>p\<close> keeps its keys in insertion order: an association list,
  with \<open>p[k] = v\<close> as \<open>AList.update k v p\<close> and a lookup as \<open>map_of p k\<close>.
\<close>

type_synonym pydict = "(string \<times> pyval) list"

definition setitem :: "pydict \<Rightarrow> string \<Rightarrow> pyval \<Rightarrow> pydict" where
  "setitem p k v = AList.update k v p"

definition magic :: "pydict \<Rightarrow> inp \<Rightarrow> error + (pydict \<times> inp)" where
  "magic p i =
     (let (m, i1) = read i 4 in
      if take 3 m \<noteq> [67, 68, 70] then Inl (FormatError ''Wrong magic number'' [])
      else if length m < 4 then Inl IndexError
      else
        (let version = uint (m ! 3) in
         if version \<notin> {1, 2} then
           Inl (FormatError ''VERSION byte {:#x} is not acceptable'' [IntV version])
         else Inr (setitem p ''version'' (IntV version), i1)))"

text \<open>
  \<open>numrecs(p, inp)\<close>. The message of the first \<open>raise\<close> is built by
  \<open>"... {%d} ...".format(numrecs)\<close>: the replacement field is named \<open>%d\<close>, no
  keyword argument has that name, and \<open>format\<close> raises \<open>KeyError\<close> before a
  \<open>FormatError\<close> exists. \<open>p.numrecs = 'streaming'\<close> sets an attribute on a
  \<open>dict\<close>, which raises \<open>AttributeError\<close>.
\<close>

definition numrecs :: "pydict \<Rightarrow> inp \<Rightarrow> error + (pydict \<times> inp)" where
  "numrecs p i =
     (let (b, i1) = read i 4 in
      case unpack_i b of
        Inl e \<Rightarrow> Inl e
      | Inr n \<Rightarrow>
          if n < - 1 then Inl (KeyError ''%d'')
          else if n = - 1 then Inl AttributeError
          else Inr (setitem p ''numrecs'' (IntV n), i1))"

definition dim_list :: "pydict \<Rightarrow> inp \<Rightarrow> error + (pydict \<times> inp)" where
  "dim_list p i =
     (let (dimension, i1) = read i 4 in
      if dimension = zero4 then
        (let (n, i2) = read i1 4 in
         if n \<noteq> zero4 then
           Inl (FormatError ''expected ABSENT for dim_list, but found {!r}'' [BytesV n])
         else Inr (setitem p ''dim_list'' (StrV (map of_char ''absent'')), i2))
      else if dimension \<noteq> [0, 0, 0, 10] then
        Inl (FormatError ''expected NC_DIMENSON for dim_list, but found {!r}''
               [BytesV dimension])
      else
        (case nelems i1 of
           Inl e \<Rightarrow> Inl e
         | Inr (n, i2) \<Rightarrow>
             (case comprehension dim (nat n) i2 of
                Inl e \<Rightarrow> Inl e
              | Inr (xs, i3) \<Rightarrow> Inr (setitem p ''dim_list'' (ListV xs), i3))))"

definition gatt_list :: "pydict \<Rightarrow> inp \<Rightarrow> error + (pydict \<times> inp)" where
  "gatt_list p i =
     (case att_list i of
        Inl e \<Rightarrow> Inl e
      | Inr (v, i1) \<Rightarrow> Inr (setitem p ''gatt_list'' v, i1))"

text \<open>
  \<open>var_list(p, inp)\<close>. The message of the second \<open>raise\<close> formats the name
  \<open>attribute\<close>, which is bound nowhere in this function or the module:
  \<open>NameError\<close>. The line printed to standard output before the loop is no part
  of the result and is left out.
\<close>

definition var_list :: "pydict \<Rightarrow> inp \<Rightarrow> error + (pydict \<times> inp)" where
  "var_list p i =
     (let (b, i1) = read i 4 in
      if b = zero4 then
        (let (n, i2) = read i1 4 in
         if n \<noteq> zero4 then
           Inl (FormatError ''expected ABSENT for var_list, but found {!r}'' [BytesV n])
         else Inr (setitem p ''var_list'' (StrV (map of_char ''absent'')), i2))
      else if b \<noteq> [0, 0, 0, 11] then Inl (NameError ''attribute'')
      else
        (case nelems i1 of
           Inl e \<Rightarrow> Inl e
         | Inr (n, i2) \<Rightarrow>
             (case comprehension var (nat n) i2 of
                Inl e \<Rightarrow> Inl e
              | Inr (xs, i3) \<Rightarrow> Inr (setitem p ''var_list'' (ListV xs), i3))))"

definition header :: "pydict \<Rightarrow> inp \<Rightarrow> error + (pydict \<times> inp)" where
  "header p i =
     (case magic p i of
        Inl e \<Rightarrow> Inl e
      | Inr (p1, i1) \<Rightarrow>
     (case numrecs p1 i1 of
        Inl e \<Rightarrow> Inl e
      | Inr (p2, i2) \<Rightarrow>
     (case dim_list p2 i2 of
        Inl e \<Rightarrow> Inl e
      | Inr (p3, i3) \<Rightarrow>
     (case gatt_list p3 i3 of
        Inl e \<Rightarrow> Inl e
      | Inr (p4, i4) \<Rightarrow> var_list p4 i4))))"

text \<open>
  \<open>parse(filename)\<close> on a file with the given bytes: an empty dictionary, the
  file opened at position 0, and the dictionary that \<open>header\<close> has filled.
\<close>

definition parse :: "byte list \<Rightarrow> error + pydict" where
  "parse bs =
     (case header [] \<lparr>content = bs, pos = 0\<rparr> of
        Inl e \<Rightarrow> Inl e
      | Inr (p, i) \<Rightarrow> Inr p)"

subsection \<open>Files that hold the same bytes ahead\<close>

text \<open>
  Two file objects are the same byte stream when the bytes from the current
  position on are the same; two results agree when they are the same exception, or
  the same value with files that are again the same stream.
\<close>

definition same_stream :: "inp \<Rightarrow> inp \<Rightarrow> bool" where
  "same_stream i j = (remaining i = remaining j)"

definition agree :: "error + ('a \<times> inp) \<Rightarrow> error + ('a \<times> inp) \<Rightarrow> bool" where
  "agree r s =
     (case r of
        Inl e \<Rightarrow> s = Inl e
      | Inr (x, i) \<Rightarrow> (case s of Inl e \<Rightarrow> False | Inr (y, j) \<Rightarrow> x = y \<and> same_stream i j))"

section \<open>Properties\<close>

subsection \<open>Reading and unpacking\<close>

lemma remaining_advance: "remaining (i\<lparr>pos := pos i + k\<rparr>) = drop k (remaining i)"
  by (simp add: remaining_def add.commute)

lemma read_nonneg:
  "0 \<le> n \<Longrightarrow> read i n = (take (nat n) (remaining i), i\<lparr>pos := pos i + min (length (remaining i)) (nat n)\<rparr>)"
  by (simp add: read_def Let_def)

lemma unpack_i_Inr: "unpack_i b = Inr n \<Longrightarrow> length b = 4 \<and> be_sint b = n"
  by (simp add: unpack_i_def split: if_splits)


lemma utf8_decode_Nil: "utf8_decode [] = Some []"
  by (simp add: utf8_decode_def)

lemma length_items: "length (items k l b) = k"
  by (induction k arbitrary: b) simp_all






lemma not_all_zero: "(xs \<noteq> replicate (length xs) (0::byte)) = (\<exists>b\<in>set xs. b \<noteq> 0)"
  by (induction xs) auto

lemma padded_bounds:
  fixes L :: int
  shows "(4 * ((L + 3) div 4)) mod 4 = 0" and "L \<le> 4 * ((L + 3) div 4)"
    and "4 * ((L + 3) div 4) < L + 4"
  by presburger+

lemma non_neg_Inr: "non_neg i = Inr (n, j) \<Longrightarrow> 0 \<le> n"
  by (auto simp: non_neg_def Let_def split: prod.splits sum.splits if_splits)




subsection \<open>Fields that are cut short\<close>









subsection \<open>Every decoder depends on the bytes ahead only\<close>

lemma agree_Inl: "agree (Inl e) (Inl e)"
  by (simp add: agree_def)

lemma agree_Inr: "x = y \<Longrightarrow> same_stream i j \<Longrightarrow> agree (Inr (x, i)) (Inr (y, j))"
  by (simp add: agree_def)

lemma agree_bind:
  assumes "agree r s"
    and "\<And>x i1 j1. same_stream i1 j1 \<Longrightarrow> agree (K x i1) (K' x j1)"
  shows "agree (case r of Inl e \<Rightarrow> Inl e | Inr (x, i1) \<Rightarrow> K x i1)
               (case s of Inl e \<Rightarrow> Inl e | Inr (x, j1) \<Rightarrow> K' x j1)"
proof (cases r)
  case (Inl e)
  then have "s = Inl e" using assms(1) by (simp add: agree_def)
  with Inl show ?thesis by (simp add: agree_def)
next
  case (Inr q)
  obtain x i1 where q: "q = (x, i1)" by (cases q)
  from assms(1) Inr q obtain j1 where s: "s = Inr (x, j1)" and "same_stream i1 j1"
    by (auto simp: agree_def split: sum.splits prod.splits)
  then have "agree (K x i1) (K' x j1)" by (intro assms(2))
  then show ?thesis using Inr q s by simp
qed

lemma read_same:
  assumes "same_stream i j"
  obtains b i1 j1 where "read i n = (b, i1)" and "read j n = (b, j1)" and "same_stream i1 j1"
  using assms by (simp add: same_stream_def read_def Let_def remaining_advance)

lemma agree_read:
  assumes "same_stream i j"
    and "\<And>b i1 j1. same_stream i1 j1 \<Longrightarrow> agree (K b i1) (K' b j1)"
  shows "agree (let (b, i1) = read i n in K b i1) (let (b, j1) = read j n in K' b j1)"
proof -
  from assms(1) obtain b i1 j1 where
    "read i n = (b, i1)" "read j n = (b, j1)" "same_stream i1 j1"
    by (rule read_same)
  then show ?thesis using assms(2) by simp
qed

lemma agree_if:
  "(c \<Longrightarrow> agree a a') \<Longrightarrow> (\<not> c \<Longrightarrow> agree b b') \<Longrightarrow>
   agree (if c then a else b) (if c then a' else b')"
  by simp

lemma agree_sum:
  "(\<And>x. agree (B x) (B' x)) \<Longrightarrow>
   agree (case u of Inl e \<Rightarrow> Inl e | Inr x \<Rightarrow> B x) (case u of Inl e \<Rightarrow> Inl e | Inr x \<Rightarrow> B' x)"
  by (simp add: agree_Inl split: sum.splits)

lemma agree_option:
  "agree a a' \<Longrightarrow> (\<And>x. agree (B x) (B' x)) \<Longrightarrow>
   agree (case u of None \<Rightarrow> a | Some x \<Rightarrow> B x) (case u of None \<Rightarrow> a' | Some x \<Rightarrow> B' x)"
  by (simp split: option.splits)

lemmas agree_intros =
  agree_read agree_bind agree_sum agree_option agree_if agree_Inl agree_Inr

lemma non_neg_same: "same_stream i j \<Longrightarrow> agree (non_neg i) (non_neg j)"
  unfolding non_neg_def by (intro agree_intros) simp_all

lemma nelems_same: "same_stream i j \<Longrightarrow> agree (nelems i) (nelems j)"
  unfolding nelems_def by (rule non_neg_same)

lemma dim_length_same: "same_stream i j \<Longrightarrow> agree (dim_length i) (dim_length j)"
  unfolding dim_length_def by (intro agree_intros) simp_all

lemma nc_type_same: "same_stream i j \<Longrightarrow> agree (nc_type i) (nc_type j)"
  unfolding nc_type_def by (intro agree_intros) simp_all

lemma name_same: "same_stream i j \<Longrightarrow> agree (name i) (name j)"
  unfolding name_def Let_def by (intro agree_intros [unfolded Let_def]) simp_all

lemma comprehension_same:
  assumes f: "\<And>i j. same_stream i j \<Longrightarrow> agree (f i) (f j)"
  shows "same_stream i j \<Longrightarrow> agree (comprehension f k i) (comprehension f k j)"
proof (induction k arbitrary: i j)
  case 0
  then show ?case by (simp add: agree_Inr)
next
  case (Suc k)
  show ?case
    unfolding comprehension.simps
    by (intro agree_intros f Suc.prems Suc.IH) simp_all
qed

lemma values_py_same: "same_stream i j \<Longrightarrow> agree (values_py i ty c) (values_py j ty c)"
proof (cases "width_format ty")
  case None
  then show ?thesis by (simp add: values_py_def agree_Inl)
next
  case (Some lf)
  obtain l f where lf: "lf = (l, f)" by (cases lf)
  assume s: "same_stream i j"
  from s obtain b i1 j1 where
    r: "read i (4 * ((c * l + 3) div 4)) = (b, i1)" "read j (4 * ((c * l + 3) div 4)) = (b, j1)"
    and s1: "same_stream i1 j1"
    by (rule read_same)
  show ?thesis
    using s1 by (simp add: values_py_def Some lf r Let_def agree_def
        split: sum.splits list.splits pyval.splits)
qed

lemma dim_same: "same_stream i j \<Longrightarrow> agree (dim i) (dim j)"
  unfolding dim_def by (intro agree_intros name_same dim_length_same) simp_all

lemma attr_same: "same_stream i j \<Longrightarrow> agree (attr i) (attr j)"
  unfolding attr_def
  by (intro agree_intros name_same nc_type_same nelems_same values_py_same) simp_all

lemma att_list_same: "same_stream i j \<Longrightarrow> agree (att_list i) (att_list j)"
  unfolding att_list_def
  by (intro agree_intros nelems_same comprehension_same attr_same) simp_all

lemma var_same: "same_stream i j \<Longrightarrow> agree (var i) (var j)"
  unfolding var_def
  by (intro agree_intros name_same nelems_same comprehension_same non_neg_same
      att_list_same nc_type_same) simp_all

lemma magic_same: "same_stream i j \<Longrightarrow> agree (magic p i) (magic p j)"
  unfolding magic_def Let_def by (intro agree_intros [unfolded Let_def]) simp_all

lemma numrecs_same: "same_stream i j \<Longrightarrow> agree (numrecs p i) (numrecs p j)"
  unfolding numrecs_def by (intro agree_intros) simp_all

lemma dim_list_same: "same_stream i j \<Longrightarrow> agree (dim_list p i) (dim_list p j)"
  unfolding dim_list_def
  by (intro agree_intros nelems_same comprehension_same dim_same) simp_all

lemma gatt_list_same: "same_stream i j \<Longrightarrow> agree (gatt_list p i) (gatt_list p j)"
  unfolding gatt_list_def by (intro agree_intros att_list_same) simp_all

lemma var_list_same: "same_stream i j \<Longrightarrow> agree (var_list p i) (var_list p j)"
  unfolding var_list_def
  by (intro agree_intros nelems_same comprehension_same var_same) simp_all

lemma header_same: "same_stream i j \<Longrightarrow> agree (header p i) (header p j)"
  unfolding header_def
  by (intro agree_intros magic_same numrecs_same dim_list_same gatt_list_same var_list_same)
    simp_all

subsection \<open>The header of a file whose three lists are absent\<close>

text \<open>
  Claim C1. The file \<open>CDF\<close>, version 1, record count 0 and three absent lists
  should decode to a header with all three lists marked absent. The code does not
  get there: the dimension list is stored as absent, and then \<open>att_list\<close>, in its
  ABSENT branch, assigns to \<open>p['gatt_list']\<close> with no \<open>p\<close> in scope. The decode of
  this file ends in \<open>NameError\<close>.
\<close>

theorem absent_lists_header_raises:
  "parse [0x43, 0x44, 0x46, 0x01,  0, 0, 0, 0,
          0, 0, 0, 0,  0, 0, 0, 0,
          0, 0, 0, 0,  0, 0, 0, 0,
          0, 0, 0, 0,  0, 0, 0, 0] = Inl (NameError ''p'')"
  by code_simp

subsection \<open>The record count\<close>

text \<open>
  Claim C2. A record count of \<open>FF FF FF FF\<close> (\<open>-1\<close>) should be stored as the
  streaming sentinel and decoding should go on. The code writes
  \<open>p.numrecs = 'streaming'\<close> on a dictionary, which raises: on this file, whose
  lists would all decode, the result is \<open>AttributeError\<close>.
\<close>

theorem streaming_numrecs_raises:
  "parse [0x43, 0x44, 0x46, 0x01,  0xFF, 0xFF, 0xFF, 0xFF,
          0, 0, 0, 0,  0, 0, 0, 0,
          0, 0, 0, 12,  0, 0, 0, 0,
          0, 0, 0, 0,  0, 0, 0, 0] = Inl AttributeError"
  by code_simp

text \<open>
  Claim C3. A record count below \<open>-1\<close> should end the decode with the format error
  for an invalid record count, carrying the value. The code fails while it builds
  the message: on this file with the record count \<open>FF FF FF FE\<close> (\<open>-2\<close>) the
  result is \<open>KeyError\<close> for the key \<open>%d\<close>, and no \<open>FormatError\<close>.
\<close>

theorem invalid_numrecs_raises:
  "parse [0x43, 0x44, 0x46, 0x01,  0xFF, 0xFF, 0xFF, 0xFE,
          0, 0, 0, 0,  0, 0, 0, 0,
          0, 0, 0, 12,  0, 0, 0, 0,
          0, 0, 0, 0,  0, 0, 0, 0] = Inl (KeyError ''%d'')"
  by code_simp

subsection \<open>The tag of the variable list\<close>

text \<open>
  Claim C4. A variable list that starts with a tag other than 0 and \<open>0x0B\<close> should
  end the decode with the format error for a wrong list tag. The code fails while
  it builds the message, which names the unbound \<open>attribute\<close>: on this file, whose
  variable list starts with the tag \<open>00 00 00 0A\<close>, the result is \<open>NameError\<close>.
\<close>

theorem wrong_var_list_tag_raises:
  "parse [0x43, 0x44, 0x46, 0x01,  0, 0, 0, 0,
          0, 0, 0, 0,  0, 0, 0, 0,
          0, 0, 0, 12,  0, 0, 0, 0,
          0, 0, 0, 10,  0, 0, 0, 0] = Inl (NameError ''attribute'')"
  by code_simp

subsection \<open>Input that ends too early\<close>





subsection \<open>Value arrays\<close>



subsection \<open>Names\<close>

text \<open>
  Claim C10. When the length word of a name decodes to 0, \<open>name\<close> succeeds with the
  empty text and leaves the file exactly four bytes further on.
\<close>

theorem name_empty:
  assumes "unpack_i (fst (read i 4)) = Inr 0"
  shows "name i = Inr ([], i\<lparr>pos := pos i + 4\<rparr>)"
proof -
  have len: "length (take 4 (remaining i)) = 4"
    using unpack_i_Inr [OF assms] by (simp add: read_nonneg)
  then have m: "min (length (remaining i)) 4 = 4" by simp
  have u: "unpack_i (take 4 (remaining i)) = Inr 0"
    using assms by (simp add: read_nonneg)
  show ?thesis
    by (simp add: name_def read_nonneg u m slice_to_def slice_from_def utf8_decode_Nil)
qed

theorem name_empty_witness:
  "unpack_i (fst (read \<lparr>content = [0, 0, 0, 0, 9], pos = 0\<rparr> 4)) = Inr 0 \<and>
   name \<lparr>content = [0, 0, 0, 0, 9], pos = 0\<rparr> = Inr ([], \<lparr>content = [0, 0, 0, 0, 9], pos = 4\<rparr>)"
proof -
  have h: "unpack_i (fst (read \<lparr>content = [0, 0, 0, 0, 9], pos = 0\<rparr> 4)) = Inr 0"
    by code_simp
  show ?thesis using h name_empty [OF h] by simp
qed

text \<open>
  Claim C7, as stated, fails at two inputs. A name of length 1 whose one byte is
  \<open>FF\<close> and whose padding holds a non-zero byte is refused for its text, with
  \<open>UnicodeDecodeError\<close>, before the padding is looked at. A name of declared length
  4 of which one byte is left is decoded from that byte, and one byte is consumed
  after the length word, not four.
\<close>

theorem name_padding_counterexample:
  "name \<lparr>content = [0, 0, 0, 1, 0xFF, 1, 0, 0], pos = 0\<rparr> = Inl UnicodeDecodeError \<and>
   name \<lparr>content = [0, 0, 0, 4, 0x61], pos = 0\<rparr> =
     Inr ([97], \<lparr>content = [0, 0, 0, 4, 0x61], pos = 5\<rparr>)"
  by code_simp

text \<open>
  Claim C7, amended. For a name whose length word decodes to \<open>L \<ge> 0\<close> and whose
  padded span of \<open>4 * ((L + 3) div 4)\<close> bytes is all there: if the first \<open>L\<close> bytes
  of the span are not UTF-8 text, \<open>name\<close> fails with \<open>UnicodeDecodeError\<close>;
  otherwise, if any byte of the span beyond index \<open>L\<close> is non-zero, it fails with
  the wrong-padding \<open>FormatError\<close>; otherwise it returns the decoded text and has
  consumed the length word and the whole span. The padded length is a multiple of 4
  and at least \<open>L\<close>.
\<close>

theorem name_padded:
  assumes len: "unpack_i (fst (read i 4)) = Inr L"
    and L: "0 \<le> L"
    and enough: "4 + 4 * ((L + 3) div 4) \<le> int (length (remaining i))"
  shows "name i =
           (let span = take (nat (4 * ((L + 3) div 4))) (drop 4 (remaining i)) in
            case utf8_decode (take (nat L) span) of
              None \<Rightarrow> Inl UnicodeDecodeError
            | Some nm \<Rightarrow>
                if \<exists>b\<in>set (drop (nat L) span). b \<noteq> 0
                then Inl (FormatError ''wrong padding in name'' [])
                else Inr (nm, i\<lparr>pos := pos i + 4 + nat (4 * ((L + 3) div 4))\<rparr>))
         \<and> (4 * ((L + 3) div 4)) mod 4 = 0 \<and> L \<le> 4 * ((L + 3) div 4)"
proof -
  define padded where "padded = 4 * ((L + 3) div 4)"
  define span where "span = take (nat padded) (drop 4 (remaining i))"
  have p: "L \<le> padded" "padded mod 4 = 0"
    using padded_bounds [of L] by (simp_all add: padded_def)
  then have p0: "0 \<le> padded" using L by simp
  have m4: "min (length (remaining i)) 4 = 4" using enough p0 by (simp add: padded_def)
  have u: "unpack_i (take 4 (remaining i)) = Inr L"
    using len by (simp add: read_nonneg)
  have mp: "min (length (remaining i) - 4) (nat padded) = nat padded"
    using enough by (simp add: padded_def)
  have rd2: "read (i\<lparr>pos := pos i + 4\<rparr>) padded = (span, i\<lparr>pos := pos i + 4 + nat padded\<rparr>)"
    using p0 by (simp add: read_nonneg remaining_advance mp span_def)
  have "name i =
          (case utf8_decode (take (nat L) span) of
              None \<Rightarrow> Inl UnicodeDecodeError
            | Some nm \<Rightarrow>
                if \<exists>b\<in>set (drop (nat L) span). b \<noteq> 0
                then Inl (FormatError ''wrong padding in name'' [])
                else Inr (nm, i\<lparr>pos := pos i + 4 + nat padded\<rparr>))"
    using L
    by (simp add: name_def read_nonneg [of 4] m4 u padded_def [symmetric] rd2
        slice_to_def slice_from_def not_all_zero split: option.splits)
  then show ?thesis using p unfolding padded_def span_def Let_def by blast
qed

theorem name_padded_witness:
  "unpack_i (fst (read \<lparr>content = [0, 0, 0, 1, 0x78, 0, 0, 0, 9], pos = 0\<rparr> 4)) = Inr 1 \<and>
   4 + 4 * ((1 + 3) div 4) \<le> int (length (remaining \<lparr>content = [0, 0, 0, 1, 0x78, 0, 0, 0, 9], pos = 0\<rparr>)) \<and>
   name \<lparr>content = [0, 0, 0, 1, 0x78, 0, 0, 0, 9], pos = 0\<rparr> =
     Inr ([120], \<lparr>content = [0, 0, 0, 1, 0x78, 0, 0, 0, 9], pos = 8\<rparr>) \<and>
   unpack_i (fst (read \<lparr>content = [0, 0, 0, 1, 0x78, 0, 1, 0, 9], pos = 0\<rparr> 4)) = Inr 1 \<and>
   4 + 4 * ((1 + 3) div 4) \<le> int (length (remaining \<lparr>content = [0, 0, 0, 1, 0x78, 0, 1, 0, 9], pos = 0\<rparr>)) \<and>
   name \<lparr>content = [0, 0, 0, 1, 0x78, 0, 1, 0, 9], pos = 0\<rparr> = Inl (FormatError ''wrong padding in name'' [])"
proof -
  let ?i = "\<lparr>content = [0, 0, 0, 1, 0x78, 0, 0, 0, 9], pos = 0\<rparr>"
  let ?j = "\<lparr>content = [0, 0, 0, 1, 0x78, 0, 1, 0, 9], pos = 0\<rparr>"
  have L: "(0::int) \<le> 1" by simp
  have i1: "unpack_i (fst (read ?i 4)) = Inr 1" by code_simp
  have i2: "4 + 4 * ((1 + 3) div 4) \<le> int (length (remaining ?i))" by code_simp
  have i3:
    "(let span = take (nat (4 * ((1 + 3) div 4))) (drop 4 (remaining ?i)) in
      case utf8_decode (take (nat 1) span) of
        None \<Rightarrow> Inl UnicodeDecodeError
      | Some nm \<Rightarrow>
          if \<exists>b\<in>set (drop (nat 1) span). b \<noteq> 0
          then Inl (FormatError ''wrong padding in name'' [])
          else Inr (nm, ?i\<lparr>pos := pos ?i + 4 + nat (4 * ((1 + 3) div 4))\<rparr>))
     = Inr ([120], \<lparr>content = [0, 0, 0, 1, 0x78, 0, 0, 0, 9], pos = 8\<rparr>)"
    by code_simp
  have j1: "unpack_i (fst (read ?j 4)) = Inr 1" by code_simp
  have j2: "4 + 4 * ((1 + 3) div 4) \<le> int (length (remaining ?j))" by code_simp
  have j3:
    "(let span = take (nat (4 * ((1 + 3) div 4))) (drop 4 (remaining ?j)) in
      case utf8_decode (take (nat 1) span) of
        None \<Rightarrow> Inl UnicodeDecodeError
      | Some nm \<Rightarrow>
          if \<exists>b\<in>set (drop (nat 1) span). b \<noteq> 0
          then Inl (FormatError ''wrong padding in name'' [])
          else Inr (nm, ?j\<lparr>pos := pos ?j + 4 + nat (4 * ((1 + 3) div 4))\<rparr>))
     = Inl (FormatError ''wrong padding in name'' [])"
    by code_simp
  have "name ?i = Inr ([120], \<lparr>content = [0, 0, 0, 1, 0x78, 0, 0, 0, 9], pos = 8\<rparr>)"
    by (rule trans [OF name_padded [OF i1 L i2, THEN conjunct1] i3])
  moreover have "name ?j = Inl (FormatError ''wrong padding in name'' [])"
    by (rule trans [OF name_padded [OF j1 L j2, THEN conjunct1] j3])
  ultimately show ?thesis using i1 i2 j1 j2 by blast
qed

subsection \<open>The descriptor of a variable\<close>

text \<open>
  Claim C8, as stated, fails. These two variable records differ in their dimension
  ids (\<open>[7]\<close> and \<open>[3, 5]\<close>) and in their type (\<open>int\<close> and \<open>double\<close>), and \<open>var\<close>
  returns the same descriptor for both: the dimension ids and the type are read and
  are not in what is returned.
\<close>

theorem var_descriptor_counterexample:
  "var \<lparr>content = [0, 0, 0, 1,  0x76, 0, 0, 0,  0, 0, 0, 1,  0, 0, 0, 7,
        0, 0, 0, 12,  0, 0, 0, 0,  0, 0, 0, 4,  0, 0, 0, 8,  0, 0, 0, 100], pos = 0\<rparr>
     = Inr (TupleV [StrV [118], ListV [], IntV 8, IntV 100],
            \<lparr>content = [0, 0, 0, 1,  0x76, 0, 0, 0,  0, 0, 0, 1,  0, 0, 0, 7,
        0, 0, 0, 12,  0, 0, 0, 0,  0, 0, 0, 4,  0, 0, 0, 8,  0, 0, 0, 100], pos = 36\<rparr>) \<and>
   var \<lparr>content = [0, 0, 0, 1,  0x76, 0, 0, 0,  0, 0, 0, 2,  0, 0, 0, 3,  0, 0, 0, 5,
        0, 0, 0, 12,  0, 0, 0, 0,  0, 0, 0, 6,  0, 0, 0, 8,  0, 0, 0, 100], pos = 0\<rparr>
     = Inr (TupleV [StrV [118], ListV [], IntV 8, IntV 100],
            \<lparr>content = [0, 0, 0, 1,  0x76, 0, 0, 0,  0, 0, 0, 2,  0, 0, 0, 3,  0, 0, 0, 5,
        0, 0, 0, 12,  0, 0, 0, 0,  0, 0, 0, 6,  0, 0, 0, 8,  0, 0, 0, 100], pos = 40\<rparr>)"
  by code_simp

text \<open>
  Claim C8, amended. Every variable record that \<open>var\<close> decodes was read as a name,
  a count, that many dimension ids, an attribute list, a type, a \<open>vsize\<close> and a
  \<open>begin\<close>, in this order, and the descriptor returned is the tuple of the name, the
  attribute list as \<open>att_list\<close> returned it, the \<open>vsize\<close> and the \<open>begin\<close>, both
  non-negative. The dimension ids and the type are not in it.
\<close>

theorem var_descriptor:
  assumes "var i = Inr (v, j)"
  shows "\<exists>var_name i1 n i2 dimensions i3 var_attr i4 ty i5 vsize i6 begin.
           name i = Inr (var_name, i1) \<and> nelems i1 = Inr (n, i2) \<and>
           comprehension non_neg (nat n) i2 = Inr (dimensions, i3) \<and>
           att_list i3 = Inr (var_attr, i4) \<and> nc_type i4 = Inr (ty, i5) \<and>
           non_neg i5 = Inr (vsize, i6) \<and> non_neg i6 = Inr (begin, j) \<and>
           v = TupleV [StrV var_name, var_attr, IntV vsize, IntV begin] \<and>
           0 \<le> vsize \<and> 0 \<le> begin"
proof -
  from assms obtain var_name i1 n i2 dimensions i3 var_attr i4 ty i5 vsize i6 beg where
    s: "name i = Inr (var_name, i1)" "nelems i1 = Inr (n, i2)"
       "comprehension non_neg (nat n) i2 = Inr (dimensions, i3)"
       "att_list i3 = Inr (var_attr, i4)" "nc_type i4 = Inr (ty, i5)"
       "non_neg i5 = Inr (vsize, i6)" "non_neg i6 = Inr (beg, j)"
       "v = TupleV [StrV var_name, var_attr, IntV vsize, IntV beg]"
    by (auto simp: var_def split: sum.splits prod.splits)
  show ?thesis
    using s non_neg_Inr [OF s(6)] non_neg_Inr [OF s(7)] by blast
qed

theorem var_descriptor_witness:
  "var \<lparr>content = [0, 0, 0, 1,  0x76, 0, 0, 0,  0, 0, 0, 1,  0, 0, 0, 7,
        0, 0, 0, 12,  0, 0, 0, 0,  0, 0, 0, 4,  0, 0, 0, 8,  0, 0, 0, 100], pos = 0\<rparr>
     = Inr (TupleV [StrV [118], ListV [], IntV 8, IntV 100],
            \<lparr>content = [0, 0, 0, 1,  0x76, 0, 0, 0,  0, 0, 0, 1,  0, 0, 0, 7,
        0, 0, 0, 12,  0, 0, 0, 0,  0, 0, 0, 4,  0, 0, 0, 8,  0, 0, 0, 100], pos = 36\<rparr>) \<and>
   (\<exists>dimensions i2 i3.
      nelems \<lparr>content = [0, 0, 0, 1,  0x76, 0, 0, 0,  0, 0, 0, 1,  0, 0, 0, 7,
        0, 0, 0, 12,  0, 0, 0, 0,  0, 0, 0, 4,  0, 0, 0, 8,  0, 0, 0, 100], pos = 8\<rparr> = Inr (1, i2) \<and>
      comprehension non_neg (nat 1) i2 = Inr (dimensions, i3))"
proof -
  let ?i = "\<lparr>content = [0, 0, 0, 1,  0x76, 0, 0, 0,  0, 0, 0, 1,  0, 0, 0, 7,
        0, 0, 0, 12,  0, 0, 0, 0,  0, 0, 0, 4,  0, 0, 0, 8,  0, 0, 0, 100], pos = 0\<rparr>"
  have h: "var ?i = Inr (TupleV [StrV [118], ListV [], IntV 8, IntV 100],
                         \<lparr>content = [0, 0, 0, 1,  0x76, 0, 0, 0,  0, 0, 0, 1,  0, 0, 0, 7,
        0, 0, 0, 12,  0, 0, 0, 0,  0, 0, 0, 4,  0, 0, 0, 8,  0, 0, 0, 100], pos = 36\<rparr>)"
    by code_simp
  have n: "name ?i = Inr ([118], \<lparr>content = [0, 0, 0, 1,  0x76, 0, 0, 0,  0, 0, 0, 1,  0, 0, 0, 7,
        0, 0, 0, 12,  0, 0, 0, 0,  0, 0, 0, 4,  0, 0, 0, 8,  0, 0, 0, 100], pos = 8\<rparr>)"
    by code_simp
  have c: "nelems \<lparr>content = [0, 0, 0, 1,  0x76, 0, 0, 0,  0, 0, 0, 1,  0, 0, 0, 7,
        0, 0, 0, 12,  0, 0, 0, 0,  0, 0, 0, 4,  0, 0, 0, 8,  0, 0, 0, 100], pos = 8\<rparr> = Inr (1, \<lparr>content = [0, 0, 0, 1,  0x76, 0, 0, 0,  0, 0, 0, 1,  0, 0, 0, 7,
        0, 0, 0, 12,  0, 0, 0, 0,  0, 0, 0, 4,  0, 0, 0, 8,  0, 0, 0, 100], pos = 12\<rparr>)"
    by code_simp
  from var_descriptor [OF h] obtain var_name i1 k i2 dimensions i3 where
    "name ?i = Inr (var_name, i1)" "nelems i1 = Inr (k, i2)"
    "comprehension non_neg (nat k) i2 = Inr (dimensions, i3)"
    by blast
  then show ?thesis using h n c by auto
qed

subsection \<open>The decode is a function of the bytes\<close>

text \<open>
  Claim C9. Two decodes that start from the same dictionary, on file objects that
  hold the same bytes from their positions on, and that both succeed, return the
  same header dictionary: the result depends on nothing but the byte stream.
\<close>

theorem decode_deterministic:
  assumes "remaining i1 = remaining i2"
    and "header p i1 = Inr (h1, j1)" and "header p i2 = Inr (h2, j2)"
  shows "h1 = h2"
proof -
  have "same_stream i1 i2" using assms(1) by (simp add: same_stream_def)
  then have "agree (header p i1) (header p i2)" by (rule header_same)
  then show ?thesis using assms(2,3) by (simp add: agree_def)
qed

theorem decode_deterministic_witness:
  "remaining \<lparr>content = [0x43, 0x44, 0x46, 0x01,  0, 0, 0, 0,
       0, 0, 0, 10,  0, 0, 0, 1,  0, 0, 0, 1,  0x78, 0, 0, 0,  0, 0, 0, 5,
       0, 0, 0, 12,  0, 0, 0, 1,  0, 0, 0, 1,  0x61, 0, 0, 0,  0, 0, 0, 2,  0, 0, 0, 2,
       0x68, 0x69, 0, 0,
       0, 0, 0, 11,  0, 0, 0, 1,  0, 0, 0, 1,  0x76, 0, 0, 0,  0, 0, 0, 1,  0, 0, 0, 0,
       0, 0, 0, 12,  0, 0, 0, 0,  0, 0, 0, 4,  0, 0, 0, 20,  0, 0, 0, 100], pos = 0\<rparr> =
   remaining \<lparr>content = 9 # 9 # [0x43, 0x44, 0x46, 0x01,  0, 0, 0, 0,
       0, 0, 0, 10,  0, 0, 0, 1,  0, 0, 0, 1,  0x78, 0, 0, 0,  0, 0, 0, 5,
       0, 0, 0, 12,  0, 0, 0, 1,  0, 0, 0, 1,  0x61, 0, 0, 0,  0, 0, 0, 2,  0, 0, 0, 2,
       0x68, 0x69, 0, 0,
       0, 0, 0, 11,  0, 0, 0, 1,  0, 0, 0, 1,  0x76, 0, 0, 0,  0, 0, 0, 1,  0, 0, 0, 0,
       0, 0, 0, 12,  0, 0, 0, 0,  0, 0, 0, 4,  0, 0, 0, 20,  0, 0, 0, 100], pos = 2\<rparr> \<and>
   (\<exists>h j1 j2.
      header [] \<lparr>content = [0x43, 0x44, 0x46, 0x01,  0, 0, 0, 0,
       0, 0, 0, 10,  0, 0, 0, 1,  0, 0, 0, 1,  0x78, 0, 0, 0,  0, 0, 0, 5,
       0, 0, 0, 12,  0, 0, 0, 1,  0, 0, 0, 1,  0x61, 0, 0, 0,  0, 0, 0, 2,  0, 0, 0, 2,
       0x68, 0x69, 0, 0,
       0, 0, 0, 11,  0, 0, 0, 1,  0, 0, 0, 1,  0x76, 0, 0, 0,  0, 0, 0, 1,  0, 0, 0, 0,
       0, 0, 0, 12,  0, 0, 0, 0,  0, 0, 0, 4,  0, 0, 0, 20,  0, 0, 0, 100], pos = 0\<rparr> = Inr (h, j1) \<and>
      header [] \<lparr>content = 9 # 9 # [0x43, 0x44, 0x46, 0x01,  0, 0, 0, 0,
       0, 0, 0, 10,  0, 0, 0, 1,  0, 0, 0, 1,  0x78, 0, 0, 0,  0, 0, 0, 5,
       0, 0, 0, 12,  0, 0, 0, 1,  0, 0, 0, 1,  0x61, 0, 0, 0,  0, 0, 0, 2,  0, 0, 0, 2,
       0x68, 0x69, 0, 0,
       0, 0, 0, 11,  0, 0, 0, 1,  0, 0, 0, 1,  0x76, 0, 0, 0,  0, 0, 0, 1,  0, 0, 0, 0,
       0, 0, 0, 12,  0, 0, 0, 0,  0, 0, 0, 4,  0, 0, 0, 20,  0, 0, 0, 100], pos = 2\<rparr> = Inr (h, j2))"
proof -
  let ?i1 = "\<lparr>content = [0x43, 0x44, 0x46, 0x01,  0, 0, 0, 0,
       0, 0, 0, 10,  0, 0, 0, 1,  0, 0, 0, 1,  0x78, 0, 0, 0,  0, 0, 0, 5,
       0, 0, 0, 12,  0, 0, 0, 1,  0, 0, 0, 1,  0x61, 0, 0, 0,  0, 0, 0, 2,  0, 0, 0, 2,
       0x68, 0x69, 0, 0,
       0, 0, 0, 11,  0, 0, 0, 1,  0, 0, 0, 1,  0x76, 0, 0, 0,  0, 0, 0, 1,  0, 0, 0, 0,
       0, 0, 0, 12,  0, 0, 0, 0,  0, 0, 0, 4,  0, 0, 0, 20,  0, 0, 0, 100], pos = 0\<rparr>"
  let ?i2 = "\<lparr>content = 9 # 9 # [0x43, 0x44, 0x46, 0x01,  0, 0, 0, 0,
       0, 0, 0, 10,  0, 0, 0, 1,  0, 0, 0, 1,  0x78, 0, 0, 0,  0, 0, 0, 5,
       0, 0, 0, 12,  0, 0, 0, 1,  0, 0, 0, 1,  0x61, 0, 0, 0,  0, 0, 0, 2,  0, 0, 0, 2,
       0x68, 0x69, 0, 0,
       0, 0, 0, 11,  0, 0, 0, 1,  0, 0, 0, 1,  0x76, 0, 0, 0,  0, 0, 0, 1,  0, 0, 0, 0,
       0, 0, 0, 12,  0, 0, 0, 0,  0, 0, 0, 4,  0, 0, 0, 20,  0, 0, 0, 100], pos = 2\<rparr>"
  have r: "remaining ?i1 = remaining ?i2" by code_simp
  have "case header [] ?i1 of Inl e \<Rightarrow> False | Inr r \<Rightarrow> True" by code_simp
  then obtain h1 j1 where a: "header [] ?i1 = Inr (h1, j1)"
    by (cases "header [] ?i1") auto
  have "case header [] ?i2 of Inl e \<Rightarrow> False | Inr r \<Rightarrow> True" by code_simp
  then obtain h2 j2 where b: "header [] ?i2 = Inr (h2, j2)"
    by (cases "header [] ?i2") auto
  have "h1 = h2" using r a b by (rule decode_deterministic)
  then show ?thesis using r a b by blast
qed

end
